theory Spec2Isabelle
  imports Complex_Main "HOL-Library.Sublist"
begin

section \<open>Python strings\<close>

text \<open>
  A Python \<open>str\<close> is modelled as a \<open>string\<close>, and the model is that of ASCII text: the
  methods of \<open>str\<close> that \<open>data_cleaning.py\<close> calls (\<open>lower\<close>, \<open>upper\<close>, \<open>replace\<close> of one
  character, \<open>strip\<close>, \<open>rstrip\<close>, \<open>startswith\<close>) are written out as Python defines them on
  the characters below 128. On other characters Python does more (\<open>str.lower\<close> maps
  accented capitals, \<open>str.strip\<close> removes U+00A0, \<open>\w\<close> and \<open>\d\<close> are Unicode classes),
  so the theorems that read the content of a string take \<open>is_ascii\<close> of it as a
  hypothesis.
\<close>

definition is_ascii :: "string \<Rightarrow> bool" where
  \<comment> \<open>\<open>s.isascii()\<close>: every character is below 128\<close>
  "is_ascii s = (\<forall>c \<in> set s. \<not> digit7 c)"

definition ascii_lowercase :: string where
  "ascii_lowercase = ''abcdefghijklmnopqrstuvwxyz''"

definition ascii_uppercase :: string where
  "ascii_uppercase = ''ABCDEFGHIJKLMNOPQRSTUVWXYZ''"

definition digits :: string where
  "digits = ''0123456789''"

definition whitespace :: string where
  \<comment> \<open>the ASCII characters for which \<open>str.isspace\<close> holds\<close>
  "whitespace = [CHR '' '', CHR 0x09, CHR 0x0A, CHR 0x0B, CHR 0x0C, CHR 0x0D,
                 CHR 0x1C, CHR 0x1D, CHR 0x1E, CHR 0x1F]"

definition upper_char :: "char \<Rightarrow> char" where
  \<comment> \<open>\<open>str.upper\<close> on one ASCII character\<close>
  "upper_char c = (case map_of (zip ascii_lowercase ascii_uppercase) c of Some u \<Rightarrow> u | None \<Rightarrow> c)"

definition lower_char :: "char \<Rightarrow> char" where
  \<comment> \<open>\<open>str.lower\<close> on one ASCII character\<close>
  "lower_char c = (case map_of (zip ascii_uppercase ascii_lowercase) c of Some l \<Rightarrow> l | None \<Rightarrow> c)"

definition upper :: "string \<Rightarrow> string" where
  "upper s = map upper_char s"



definition lstrip :: "string \<Rightarrow> string \<Rightarrow> string" where
  "lstrip chars s = dropWhile (\<lambda>c. c \<in> set chars) s"

definition rstrip :: "string \<Rightarrow> string \<Rightarrow> string" where
  "rstrip chars s = rev (dropWhile (\<lambda>c. c \<in> set chars) (rev s))"

definition strip :: "string \<Rightarrow> string" where
  \<comment> \<open>\<open>s.strip()\<close>: without an argument, whitespace goes\<close>
  "strip s = rstrip whitespace (lstrip whitespace s)"

definition startswith :: "string \<Rightarrow> string \<Rightarrow> bool" where
  "startswith s p = (take (length p) s = p)"

fun str_nat :: "nat \<Rightarrow> string" where
  "str_nat n = (if n < 10 then [digits ! n] else str_nat (n div 10) @ [digits ! (n mod 10)])"

declare str_nat.simps [simp del]

definition str_int :: "int \<Rightarrow> string" where
  \<comment> \<open>\<open>str(i)\<close> of an integer\<close>
  "str_int i = (if i < 0 then CHR ''-'' # str_nat (nat (- i)) else str_nat (nat i))"




section \<open>The regular expressions of the module\<close>

text \<open>
  Four patterns occur in \<open>data_cleaning.py\<close>. Each is modelled by the search that
  \<open>re.search\<close> performs for it on ASCII text: \<open>^[Bb]\<close> and \<open>^[Lu]\<close> look at the first
  character only, \<open>\bSports\b\<close> looks for the word between two word boundaries, and
  \<open>/(\d+)/\<close> returns the group of the leftmost match.
\<close>

definition starts_with_one_of :: "string \<Rightarrow> string \<Rightarrow> bool" where
  \<comment> \<open>\<open>re.search('^[chars]', s)\<close>\<close>
  "starts_with_one_of chars s = (case s of [] \<Rightarrow> False | c # _ \<Rightarrow> c \<in> set chars)"

definition is_word_char :: "char \<Rightarrow> bool" where
  \<comment> \<open>the class \<open>\w\<close> on ASCII characters\<close>
  "is_word_char c = (c \<in> set (ascii_lowercase @ ascii_uppercase @ digits @ ''_''))"

fun search_word_from :: "string \<Rightarrow> bool \<Rightarrow> string \<Rightarrow> bool" where
  \<comment> \<open>\<open>re.search('\bw\b', s)\<close> for a word \<open>w\<close> of word characters; the flag says whether the
      character before the current position is a word character\<close>
  "search_word_from w prev [] = False"
| "search_word_from w prev (c # cs) =
     ((\<not> prev \<and> startswith (c # cs) w \<and>
        (case drop (length w) (c # cs) of [] \<Rightarrow> True | d # _ \<Rightarrow> \<not> is_word_char d))
      \<or> search_word_from w (is_word_char c) cs)"

definition contains_word :: "string \<Rightarrow> string \<Rightarrow> bool" where
  "contains_word w s = search_word_from w False s"



section \<open>Cells, series and frames\<close>

text \<open>
  A cell of a pandas frame holds a string, an integer, a float, a boolean, or one of the
  three missing markers: the float \<open>nan\<close>, Python's \<open>None\<close> and \<open>pd.NA\<close>. Floats are
  modelled by the rationals they denote (infinities are left out).

  What lies outside the module is a parameter of the model, the \<open>runtime\<close>:
  \<^item> \<open>float_str\<close> is \<open>str\<close> on a float;
  \<^item> \<open>float_of_str\<close> is the float that \<open>pandas.to_numeric\<close> reads from a string that is
    no run of digits, \<open>None\<close> when the string is no number or reads as \<open>nan\<close>;
  \<^item> \<open>float_mean\<close> is the float64 mean of two floats, as \<open>median\<close> takes it of the two
    middle values (the exact mean, rounded);
  \<^item> \<open>astype_str_keeps_missing\<close> tells the two behaviours of \<open>astype(str)\<close> apart: up to
    pandas 2 a missing marker becomes its string form (\<open>nan\<close>, \<open>None\<close>, \<open><NA>\<close>), from
    pandas 3 on it stays missing.
\<close>

datatype cell = CStr string | CInt int | CFloat rat | CBool bool | NaN | PyNone | NA

text \<open>
  \<open>Dt_object\<close> is the dtype of columns of strings or of mixed values (under pandas 3 a
  column of strings has the dtype \<open>str\<close>, which the module treats in the same way);
  \<open>Dt_int64\<close> and \<open>Dt_bool\<close> hold no missing marker, \<open>Dt_float64\<close> holds \<open>NaN\<close>, and the
  nullable \<open>Dt_Int64\<close> holds \<open>NA\<close>.
\<close>

datatype dtype = Dt_object | Dt_float64 | Dt_int64 | Dt_Int64 | Dt_bool

record runtime =
  float_str :: "rat \<Rightarrow> string"
  float_of_str :: "string \<Rightarrow> rat option"
  float_mean :: "rat \<Rightarrow> rat \<Rightarrow> rat"
  astype_str_keeps_missing :: bool

record series =
  dtype :: dtype
  cells :: "cell list"

text \<open>
  A frame is its row labels and its named columns, in order. In a frame of pandas every
  column holds one cell per row label (\<open>aligned\<close>), and the cells of a column are of the
  kind its dtype allows (\<open>well_typed\<close>).
\<close>

record frame =
  index :: "int list"
  columns :: "(string \<times> series) list"

definition aligned :: "frame \<Rightarrow> bool" where
  "aligned df = (\<forall>(n, s) \<in> set (columns df). length (cells s) = length (index df))"

definition well_typed :: "series \<Rightarrow> bool" where
  "well_typed s =
     (\<forall>c \<in> set (cells s).
        case dtype s of
          Dt_object \<Rightarrow> True
        | Dt_float64 \<Rightarrow> (case c of CFloat _ \<Rightarrow> True | NaN \<Rightarrow> True | _ \<Rightarrow> False)
        | Dt_int64 \<Rightarrow> (case c of CInt i \<Rightarrow> - (2 ^ 63) \<le> i \<and> i < 2 ^ 63 | _ \<Rightarrow> False)
        | Dt_Int64 \<Rightarrow> (case c of CInt i \<Rightarrow> - (2 ^ 63) \<le> i \<and> i < 2 ^ 63 | NA \<Rightarrow> True | _ \<Rightarrow> False)
        | Dt_bool \<Rightarrow> (case c of CBool _ \<Rightarrow> True | _ \<Rightarrow> False))"

definition column_names :: "frame \<Rightarrow> string list" where
  "column_names df = map fst (columns df)"

definition len :: "frame \<Rightarrow> nat" where
  "len df = length (index df)"

text \<open>
  \<open>df[name]\<close> and \<open>df[name] = s\<close> are modelled for frames whose column names are distinct.
  (With a name that occurs twice \<open>df[name]\<close> is a frame in pandas, not a series, and the
  module's \<open>.str\<close> and \<open>.apply\<close> calls fail on it; the theorems assume distinct names.)
\<close>

definition getitem :: "frame \<Rightarrow> string \<Rightarrow> series option" where
  \<comment> \<open>\<open>df[name]\<close>, guarded in the module by \<open>name in df.columns\<close>\<close>
  "getitem df name = map_of (columns df) name"

definition setitem :: "frame \<Rightarrow> string \<Rightarrow> series \<Rightarrow> frame" where
  \<comment> \<open>\<open>df[name] = s\<close>: overwrites the column in place, or appends a new last column\<close>
  "setitem df name s =
     (if name \<in> set (column_names df)
      then df\<lparr>columns := map (\<lambda>(n, t). if n = name then (n, s) else (n, t)) (columns df)\<rparr>
      else df\<lparr>columns := columns df @ [(name, s)]\<rparr>)"


section \<open>The pandas operations the module calls\<close>

definition isnull :: "cell \<Rightarrow> bool" where
  \<comment> \<open>\<open>pd.isnull(x)\<close>\<close>
  "isnull c = (case c of NaN \<Rightarrow> True | PyNone \<Rightarrow> True | NA \<Rightarrow> True | _ \<Rightarrow> False)"

definition py_str :: "runtime \<Rightarrow> cell \<Rightarrow> string" where
  \<comment> \<open>\<open>str(x)\<close> of a cell's value\<close>
  "py_str py c = (case c of
       CStr s \<Rightarrow> s
     | CInt i \<Rightarrow> str_int i
     | CFloat x \<Rightarrow> float_str py x
     | CBool b \<Rightarrow> (if b then ''True'' else ''False'')
     | NaN \<Rightarrow> ''nan''
     | PyNone \<Rightarrow> ''None''
     | NA \<Rightarrow> ''<NA>'')"

definition astype_str_cell :: "runtime \<Rightarrow> cell \<Rightarrow> cell" where
  \<comment> \<open>one cell of \<open>s.astype(str)\<close>: up to pandas 2 every cell becomes its string form, from
      pandas 3 on a missing cell stays missing\<close>
  "astype_str_cell py c =
     (if isnull c \<and> astype_str_keeps_missing py then NaN else CStr (py_str py c))"

definition astype_str :: "runtime \<Rightarrow> series \<Rightarrow> series" where
  \<comment> \<open>\<open>s.astype(str)\<close>\<close>
  "astype_str py s = \<lparr>dtype = Dt_object, cells = map (astype_str_cell py) (cells s)\<rparr>"

definition fillna :: "cell \<Rightarrow> series \<Rightarrow> series" where
  \<comment> \<open>\<open>s.fillna(v)\<close>; a string put into a numeric column makes it an object column. (A
      nullable \<open>Int64\<close> column takes integers only: pandas raises on any other fill value
      and stores a whole median as an integer. The theorems leave that dtype out.)\<close>
  "fillna v s =
     (if \<exists>c \<in> set (cells s). isnull c
      then \<lparr>dtype = (case v of CStr _ \<Rightarrow> Dt_object | _ \<Rightarrow> dtype s),
            cells = map (\<lambda>c. if isnull c then v else c) (cells s)\<rparr>
      else s)"

definition apply_str :: "(string \<Rightarrow> string) \<Rightarrow> series \<Rightarrow> series" where
  \<comment> \<open>\<open>s.apply(f)\<close> for an \<open>f\<close> on strings, on a series of strings\<close>
  "apply_str f s =
     \<lparr>dtype = Dt_object, cells = map (\<lambda>c. case c of CStr x \<Rightarrow> CStr (f x) | _ \<Rightarrow> c) (cells s)\<rparr>"



definition str_contains :: "(string \<Rightarrow> bool) \<Rightarrow> series \<Rightarrow> bool list" where
  \<comment> \<open>\<open>s.str.contains(pat, na=False)\<close>, the pattern given by its search\<close>
  "str_contains pat s = map (\<lambda>c. case c of CStr x \<Rightarrow> pat x | _ \<Rightarrow> False) (cells s)"

definition loc_setitem :: "frame \<Rightarrow> bool list \<Rightarrow> string \<Rightarrow> cell \<Rightarrow> frame" where
  \<comment> \<open>\<open>df.loc[mask, name] = v\<close>\<close>
  "loc_setitem df msk name v =
     (case getitem df name of
        None \<Rightarrow> df
      | Some s \<Rightarrow> setitem df name (s\<lparr>cells := map (\<lambda>(b, c). if b then v else c) (zip msk (cells s))\<rparr>))"












definition is_numeric_dtype :: "series \<Rightarrow> bool" where
  \<comment> \<open>\<open>pd.api.types.is_numeric_dtype(s)\<close>\<close>
  "is_numeric_dtype s = (dtype s \<noteq> Dt_object)"

definition number_of :: "cell \<Rightarrow> rat option" where
  \<comment> \<open>the number that a cell holds, if it holds one\<close>
  "number_of c = (case c of
       CInt i \<Rightarrow> Some (of_int i)
     | CFloat x \<Rightarrow> Some x
     | CBool b \<Rightarrow> Some (if b then 1 else 0)
     | _ \<Rightarrow> None)"

definition median_of :: "runtime \<Rightarrow> rat list \<Rightarrow> rat option" where
  \<comment> \<open>the middle of the sorted values, the float64 mean of the two middle ones for an even
      count\<close>
  "median_of py xs =
     (let ys = sort xs; n = length ys in
      if n = 0 then None
      else if odd n then Some (ys ! (n div 2))
      else Some (float_mean py (ys ! (n div 2 - 1)) (ys ! (n div 2))))"

definition median :: "runtime \<Rightarrow> series \<Rightarrow> cell" where
  \<comment> \<open>\<open>s.median()\<close> of a numeric column: missing cells are skipped; no value at all gives
      \<open>NaN\<close>\<close>
  "median py s = (case median_of py (List.map_filter number_of (cells s)) of
                    None \<Rightarrow> NaN | Some m \<Rightarrow> CFloat m)"

definition isnull_series :: "series \<Rightarrow> series" where
  \<comment> \<open>\<open>s.isnull()\<close>\<close>
  "isnull_series s = \<lparr>dtype = Dt_bool, cells = map (\<lambda>c. CBool (isnull c)) (cells s)\<rparr>"

definition row :: "frame \<Rightarrow> nat \<Rightarrow> cell list" where
  "row df i = map (\<lambda>(n, s). cells s ! i) (columns df)"

definition rows :: "frame \<Rightarrow> cell list list" where
  "rows df = map (row df) [0..<len df]"

text \<open>
  \<open>df.duplicated\<close> tells rows apart by what the hash table of \<open>factorize\<close> tells apart in
  each column: two strings are the same if they are equal, two numbers if they are equal
  as Python compares them (so \<open>1\<close>, \<open>1.0\<close> and \<open>True\<close> are the same), and all missing
  markers are the same.
\<close>

definition cell_key :: "cell \<Rightarrow> string + rat option" where
  "cell_key c = (case c of CStr x \<Rightarrow> Inl x | _ \<Rightarrow> Inr (number_of c))"

fun duplicated_from :: "'a list \<Rightarrow> 'a list \<Rightarrow> bool list" where
  \<comment> \<open>marks each element that an earlier one (or one of \<open>seen\<close>) equals\<close>
  "duplicated_from seen [] = []"
| "duplicated_from seen (r # rs) = (r \<in> set seen) # duplicated_from (r # seen) rs"

definition duplicated :: "frame \<Rightarrow> bool list" where
  \<comment> \<open>\<open>df.duplicated(keep='first')\<close>\<close>
  "duplicated df = duplicated_from [] (map (map cell_key) (rows df))"

definition select :: "bool list \<Rightarrow> 'a list \<Rightarrow> 'a list" where
  \<comment> \<open>selection by a boolean mask\<close>
  "select msk xs = map snd (filter fst (zip msk xs))"

definition empty :: "frame \<Rightarrow> bool" where
  \<comment> \<open>\<open>df.empty\<close>: no column or no row\<close>
  "empty df = (columns df = [] \<or> index df = [])"

definition drop_duplicates :: "frame \<Rightarrow> frame" where
  \<comment> \<open>\<open>df.drop_duplicates(keep='first')\<close>; pandas hands an empty frame back as it is\<close>
  "drop_duplicates df =
     (if empty df then df
      else let keep = map Not (duplicated df) in
        \<lparr>index = select keep (index df),
         columns = map (\<lambda>(n, s). (n, s\<lparr>cells := select keep (cells s)\<rparr>)) (columns df)\<rparr>)"

definition reset_index :: "frame \<Rightarrow> frame" where
  \<comment> \<open>\<open>df.reset_index(drop=True)\<close>\<close>
  "reset_index df = df\<lparr>index := map int [0..<len df]\<rparr>"


section \<open>The module \<open>data_cleaning.py\<close>\<close>


definition standardize_gender :: "runtime \<Rightarrow> frame \<Rightarrow> frame" where
  "standardize_gender py df =
     (case getitem df ''gender'' of
        None \<Rightarrow> df
      | Some gender_series \<Rightarrow>
          let gender_series = fillna (CStr '''') (astype_str py gender_series)
          in setitem df ''gender''
               (apply_str (\<lambda>x. if startswith (upper (strip x)) ''F'' then ''F''
                                else if startswith (upper (strip x)) ''M'' then ''M''
                                else x) gender_series))"




definition standardize_vehicle_class :: "runtime \<Rightarrow> frame \<Rightarrow> frame" where
  "standardize_vehicle_class py df =
     (case getitem df ''vehicle_class'' of
        None \<Rightarrow> df
      | Some s \<Rightarrow>
          let df = setitem df ''vehicle_class'' (astype_str py s);
              df = loc_setitem df
                     (str_contains (starts_with_one_of ''Lu'') (the (getitem df ''vehicle_class'')))
                     ''vehicle_class'' (CStr ''Luxury'');
              df = loc_setitem df
                     (str_contains (contains_word ''Sports'') (the (getitem df ''vehicle_class'')))
                     ''vehicle_class'' (CStr ''Luxury'')
          in df)"



definition categorical_cols :: "string list" where
  "categorical_cols = [''customer'', ''state'', ''gender'', ''education'', ''policy_type'', ''vehicle_class'']"

definition numerical_cols :: "string list" where
  "numerical_cols = [''total_claim_amount'', ''monthly_premium_auto'', ''customer_income'',
                     ''customer_lifetime_value'']"

definition fill_categorical :: "frame \<Rightarrow> string \<Rightarrow> frame" where
  \<comment> \<open>the body of the first loop of \<open>handle_missing_values\<close>\<close>
  "fill_categorical df col =
     (case getitem df col of
        None \<Rightarrow> df
      | Some s \<Rightarrow> setitem df col (fillna (CStr ''Unknown'') s))"

definition fill_numerical :: "runtime \<Rightarrow> frame \<Rightarrow> string \<Rightarrow> frame" where
  \<comment> \<open>the body of the second loop of \<open>handle_missing_values\<close>\<close>
  "fill_numerical py df col =
     (case getitem df col of
        None \<Rightarrow> df
      | Some s \<Rightarrow> if is_numeric_dtype s then setitem df col (fillna (median py s) s) else df)"

definition handle_missing_values :: "runtime \<Rightarrow> frame \<Rightarrow> frame" where
  "handle_missing_values py df =
     (let df = foldl fill_categorical df categorical_cols;
          df = foldl (fill_numerical py) df numerical_cols;
          df = (case getitem df ''number_of_open_complaints'' of
                  None \<Rightarrow> df
                | Some s \<Rightarrow> setitem df ''complaints_missing'' (isnull_series s))
      in df)"




section \<open>The frames that the theorems speak of\<close>



text \<open>
  The module raises on some frames, and the model above is silent about that. The
  predicates below name the frames on which every call of the module returns and on
  which the model follows pandas:
  \<^item> \<open>fillable\<close>: the columns are well typed, no column that \<open>handle_missing_values\<close>
    fills is of the nullable \<open>Int64\<close> dtype (line 99 and line 104 raise on it), and no
    column of which it takes the median is boolean;
  \<^item> \<open>ascii_text\<close>: the string forms of the cells of a column are ASCII text;
  \<^item> \<open>small_complaint\<close>: the digits that \<open>/(\d+)/\<close> finds in a cell denote at most \<open>2^53\<close>,
    so that they are the same number as an \<open>int64\<close> and as a \<open>float64\<close>;
  \<^item> \<open>supported\<close>: all of this for an input of the pipeline, which has at least one
    column, ASCII column names, and no two columns with the same output name.
\<close>

definition fillable :: "frame \<Rightarrow> bool" where
  "fillable df =
     (\<forall>(n, s) \<in> set (columns df).
        well_typed s
        \<and> (n \<in> set categorical_cols \<longrightarrow> dtype s \<noteq> Dt_Int64)
        \<and> (n \<in> set numerical_cols \<longrightarrow> dtype s \<noteq> Dt_Int64 \<and> dtype s \<noteq> Dt_bool))"







section \<open>Sample values\<close>

text \<open>
  A few floats as Python prints and reads them, under pandas 2 and under pandas 3, and
  small frames, for the concrete instances of the theorems below.
\<close>

definition printed_floats :: "(rat \<times> string) list" where
  "printed_floats = [(10, ''10.0''), (20, ''20.0''), (40, ''40.0''), (45, ''45.0'')]"

definition sample_floats :: runtime where
  "sample_floats =
     \<lparr>float_str = (\<lambda>x. case map_of printed_floats x of Some s \<Rightarrow> s | None \<Rightarrow> ''0.0''),
      float_of_str = (\<lambda>s. map_of (map (\<lambda>(x, s). (s, x)) printed_floats) s),
      float_mean = (\<lambda>a b. (a + b) / 2),
      astype_str_keeps_missing = False\<rparr>"


definition vehicle_frame :: frame where
  "vehicle_frame =
     \<lparr>index = [0, 1, 2, 3],
      columns = [(''vehicle_class'',
                  \<lparr>dtype = Dt_object,
                   cells = [CStr ''luxury car'', CStr ''Sports Car'', CStr ''SUV'', CStr ''Luxury Car'']\<rparr>)]\<rparr>"

definition luxury_car_frame :: frame where
  "luxury_car_frame =
     \<lparr>index = [0],
      columns = [(''vehicle_class'', \<lparr>dtype = Dt_object, cells = [CStr ''luxury car'']\<rparr>)]\<rparr>"

definition gender_frame :: frame where
  "gender_frame =
     \<lparr>index = [0, 1, 2, 3, 4, 5, 6, 7],
      columns = [(''gender'',
                  \<lparr>dtype = Dt_object,
                   cells = [CStr ''female'', CStr '' f '', CStr ''F'', CStr ''Male'', CStr ''Other'',
                            CStr (CHR 0x09 # ''male'' @ [CHR 0x0A]), CBool False, CInt 5]\<rparr>)]\<rparr>"

definition other_gender_frame :: frame where
  "other_gender_frame =
     \<lparr>index = [0],
      columns = [(''gender'', \<lparr>dtype = Dt_object, cells = [CStr ''Other'']\<rparr>)]\<rparr>"

definition complaints_frame :: frame where
  "complaints_frame =
     \<lparr>index = [0, 1],
      columns = [(''number_of_open_complaints'', \<lparr>dtype = Dt_Int64, cells = [CInt 3, NA]\<rparr>)]\<rparr>"

definition float_claims_frame :: frame where
  "float_claims_frame =
     \<lparr>index = [0, 1, 2, 3],
      columns = [(''total_claim_amount'',
                  \<lparr>dtype = Dt_float64, cells = [CFloat 10, CFloat 20, NaN, CFloat 40]\<rparr>),
                 (''monthly_premium_auto'',
                  \<lparr>dtype = Dt_float64, cells = [CFloat 40, NaN, NaN, CFloat 10]\<rparr>),
                 (''customer_income'',
                  \<lparr>dtype = Dt_float64, cells = [NaN, NaN, NaN, NaN]\<rparr>)]\<rparr>"









definition one_complaint_frame :: frame where
  "one_complaint_frame =
     \<lparr>index = [0],
      columns = [(''number_of_open_complaints'', \<lparr>dtype = Dt_object, cells = [CStr ''1/3/00'']\<rparr>)]\<rparr>"


section \<open>Auxiliary notions for the statements and the proofs\<close>

text \<open>
  Every stage but the first and the last rewrites named columns cell by cell: row \<open>i\<close> of
  the new column is a function of row \<open>i\<close> of the old one. The two combinators below say
  so, and the functions after them name what each stage does to one cell.
\<close>

definition update_column :: "string \<Rightarrow> (series \<Rightarrow> series) \<Rightarrow> frame \<Rightarrow> frame" where
  \<comment> \<open>\<open>if name in df.columns: df[name] = f(df[name])\<close>\<close>
  "update_column name f df = (case getitem df name of None \<Rightarrow> df | Some s \<Rightarrow> setitem df name (f s))"

definition cellwise :: "dtype \<Rightarrow> (cell \<Rightarrow> cell) \<Rightarrow> series \<Rightarrow> series" where
  "cellwise d f s = \<lparr>dtype = d, cells = map f (cells s)\<rparr>"

definition gender_rule :: "string \<Rightarrow> string" where
  \<comment> \<open>the lambda of \<open>standardize_gender\<close>\<close>
  "gender_rule x =
     (if startswith (upper (strip x)) ''F'' then ''F''
      else if startswith (upper (strip x)) ''M'' then ''M''
      else x)"

definition gender_cell :: "runtime \<Rightarrow> cell \<Rightarrow> cell" where
  "gender_cell py c =
     CStr (gender_rule (if isnull c \<and> astype_str_keeps_missing py then '''' else py_str py c))"



definition vehicle_class_cell :: "runtime \<Rightarrow> cell \<Rightarrow> cell" where
  "vehicle_class_cell py c =
     (if isnull c \<and> astype_str_keeps_missing py then NaN
      else if starts_with_one_of ''Lu'' (py_str py c) \<or> contains_word ''Sports'' (py_str py c)
      then CStr ''Luxury''
      else CStr (py_str py c))"





definition fill_median :: "runtime \<Rightarrow> series \<Rightarrow> series" where
  "fill_median py s = (if is_numeric_dtype s then fillna (median py s) s else s)"




text \<open>
  Equality of cells as rows are compared for duplicates: two missing cells are equal;
  a missing cell equals no other; two strings are equal if they are the same string; a
  string equals no number; and two numbers (integers, floats, booleans) are equal if
  they have the same value, as with Python's \<open>==\<close>.
\<close>

definition same_value :: "cell \<Rightarrow> cell \<Rightarrow> bool" where
  "same_value a b =
     (if isnull a \<or> isnull b then isnull a \<and> isnull b
      else case (a, b) of
             (CStr x, CStr y) \<Rightarrow> x = y
           | (CStr x, _) \<Rightarrow> False
           | (_, CStr y) \<Rightarrow> False
           | _ \<Rightarrow> number_of a = number_of b)"

definition equal_rows :: "frame \<Rightarrow> nat \<Rightarrow> nat \<Rightarrow> bool" where
  "equal_rows df j i = list_all2 same_value (row df j) (row df i)"

definition first_occurrences :: "frame \<Rightarrow> nat list" where
  \<comment> \<open>the positions of the rows that no earlier row equals cell for cell, in order\<close>
  "first_occurrences df = filter (\<lambda>i. \<forall>j < i. \<not> equal_rows df j i) [0..<len df]"


section \<open>Reading and writing columns\<close>

lemma map_of_overwrite:
  "map_of (map (\<lambda>(n, t). if n = name then (n, s) else (n, t)) cs) m =
     (if m = name then (if name \<in> fst ` set cs then Some s else None) else map_of cs m)"
  by (induction cs) force+

lemma getitem_setitem_same: "getitem (setitem df n s) n = Some s"
  by (auto simp: getitem_def setitem_def column_names_def map_of_overwrite map_add_def map_of_eq_None_iff[THEN iffD2])

lemma getitem_setitem_other: "m \<noteq> n \<Longrightarrow> getitem (setitem df n s) m = getitem df m"
  by (auto simp: getitem_def setitem_def column_names_def map_of_overwrite map_add_def split: option.splits)

lemma getitem_setitem: "getitem (setitem df n s) m = (if m = n then Some s else getitem df m)"
  by (simp add: getitem_setitem_same getitem_setitem_other)


lemma column_names_setitem:
  "column_names (setitem df n s) = (if n \<in> set (column_names df) then column_names df else column_names df @ [n])"
  by (auto simp: setitem_def column_names_def comp_def case_prod_unfold intro!: map_idI)

lemma getitem_None_iff: "getitem df n = None \<longleftrightarrow> n \<notin> set (column_names df)"
  by (simp add: getitem_def column_names_def map_of_eq_None_iff)


lemma cells_fillna: "cells (fillna v s) = map (\<lambda>c. if isnull c then v else c) (cells s)"
proof (cases "\<exists>c \<in> set (cells s). isnull c")
  case True
  then show ?thesis by (simp add: fillna_def)
next
  case False
  then have "map (\<lambda>c. if isnull c then v else c) (cells s) = cells s"
    by (intro map_idI) auto
  with False show ?thesis by (simp add: fillna_def)
qed

lemma overwrite_absent:
  "n \<notin> fst ` set cs \<Longrightarrow> map (\<lambda>(m, t). if m = n then (m, s) else (m, t)) cs = cs"
  by (induction cs) auto

lemma overwrite_overwrite:
  "map (\<lambda>(m, u). if m = n then (m, t) else (m, u)) (map (\<lambda>(m, u). if m = n then (m, s) else (m, u)) cs)
     = map (\<lambda>(m, u). if m = n then (m, t) else (m, u)) cs"
  by (induction cs) auto

lemma name_in_setitem: "n \<in> set (column_names (setitem df n s))"
  by (simp add: column_names_setitem)

lemma setitem_setitem: "setitem (setitem df n s) n t = setitem df n t"
proof (cases "n \<in> set (column_names df)")
  case True
  have "setitem (setitem df n s) n t =
      (setitem df n s)\<lparr>columns := map (\<lambda>(m, u). if m = n then (m, t) else (m, u)) (columns (setitem df n s))\<rparr>"
    using name_in_setitem[of n df s] by (simp add: setitem_def[of "setitem df n s"])
  also have "\<dots> = setitem df n t"
    using True by (simp add: setitem_def overwrite_overwrite del: map_map)
  finally show ?thesis .
next
  case False
  have "setitem (setitem df n s) n t =
      (setitem df n s)\<lparr>columns := map (\<lambda>(m, u). if m = n then (m, t) else (m, u)) (columns (setitem df n s))\<rparr>"
    using name_in_setitem[of n df s] by (simp add: setitem_def[of "setitem df n s"])
  also have "\<dots> = setitem df n t"
    using False by (simp add: setitem_def column_names_def overwrite_absent)
  finally show ?thesis .
qed

lemma loc_setitem_same:
  "loc_setitem (setitem df n s) msk n v =
     setitem df n (s\<lparr>cells := map (\<lambda>(b, c). if b then v else c) (zip msk (cells s))\<rparr>)"
  by (simp add: loc_setitem_def getitem_setitem_same setitem_setitem)

lemma loc_cells:
  "map (\<lambda>(b, c). if b then v else c) (zip (map f cs) cs) = map (\<lambda>c. if f c then v else c) cs"
  by (induction cs) auto

lemma loc_setitem_str_contains:
  "loc_setitem (setitem df n s) (str_contains p s) n v =
     setitem df n (s\<lparr>cells := map (\<lambda>c. if (case c of CStr x \<Rightarrow> p x | _ \<Rightarrow> False) then v else c) (cells s)\<rparr>)"
  by (simp only: loc_setitem_same str_contains_def loc_cells)


section \<open>What each stage does to its column\<close>

lemma isnull_simps [simp]:
  "isnull NaN" "isnull PyNone" "isnull NA"
  "\<not> isnull (CStr x)" "\<not> isnull (CInt i)" "\<not> isnull (CFloat r)" "\<not> isnull (CBool b)"
  by (simp_all add: isnull_def)


lemma column_names_setitem_present:
  "getitem df n = Some t \<Longrightarrow> column_names (setitem df n s) = column_names df"
  by (simp add: column_names_setitem getitem_None_iff[symmetric])


lemma getitem_update_column:
  "getitem (update_column n f df) m = (if m = n then map_option f (getitem df n) else getitem df m)"
  by (simp add: update_column_def getitem_setitem split: option.splits)

lemma series_eqI: "dtype s = dtype t \<Longrightarrow> cells s = cells t \<Longrightarrow> s = (t :: series)"
  by simp

lemma gender_series:
  "apply_str (\<lambda>x. if startswith (upper (strip x)) ''F'' then ''F''
                   else if startswith (upper (strip x)) ''M'' then ''M''
                   else x) (fillna (CStr '''') (astype_str py s))
   = cellwise Dt_object (gender_cell py) s"
proof (rule series_eqI)
  show "dtype (apply_str (\<lambda>x. if startswith (upper (strip x)) ''F'' then ''F''
                   else if startswith (upper (strip x)) ''M'' then ''M''
                   else x) (fillna (CStr '''') (astype_str py s)))
      = dtype (cellwise Dt_object (gender_cell py) s)"
    by (simp add: apply_str_def cellwise_def)
  show "cells (apply_str (\<lambda>x. if startswith (upper (strip x)) ''F'' then ''F''
                   else if startswith (upper (strip x)) ''M'' then ''M''
                   else x) (fillna (CStr '''') (astype_str py s)))
      = cells (cellwise Dt_object (gender_cell py) s)"
    by (simp add: apply_str_def cells_fillna astype_str_def astype_str_cell_def cellwise_def
        gender_cell_def gender_rule_def)
qed

lemma standardize_gender_update:
  "standardize_gender py df = update_column ''gender'' (cellwise Dt_object (gender_cell py)) df"
  by (simp add: standardize_gender_def update_column_def gender_series split: option.splits)





lemma contains_word_Luxury: "\<not> contains_word ''Sports'' ''Luxury''"
  by (simp add: contains_word_def startswith_def)

lemma vehicle_class_series:
  "\<lparr>dtype = Dt_object,
    cells = map (\<lambda>c. if (case c of CStr x \<Rightarrow> contains_word ''Sports'' x | _ \<Rightarrow> False) then CStr ''Luxury'' else c)
              (map (\<lambda>c. if (case c of CStr x \<Rightarrow> starts_with_one_of ''Lu'' x | _ \<Rightarrow> False) then CStr ''Luxury'' else c)
                 (map (astype_str_cell py) (cells s)))\<rparr>
   = cellwise Dt_object (vehicle_class_cell py) s"
  by (simp add: astype_str_cell_def cellwise_def vehicle_class_cell_def contains_word_Luxury)

lemma standardize_vehicle_class_update:
  "standardize_vehicle_class py df =
     update_column ''vehicle_class'' (cellwise Dt_object (vehicle_class_cell py)) df"
proof (cases "getitem df ''vehicle_class''")
  case None
  then show ?thesis by (simp add: standardize_vehicle_class_def update_column_def)
next
  case (Some s)
  have "standardize_vehicle_class py df =
      setitem df ''vehicle_class''
        \<lparr>dtype = Dt_object,
         cells = map (\<lambda>c. if (case c of CStr x \<Rightarrow> contains_word ''Sports'' x | _ \<Rightarrow> False) then CStr ''Luxury'' else c)
                  (map (\<lambda>c. if (case c of CStr x \<Rightarrow> starts_with_one_of ''Lu'' x | _ \<Rightarrow> False) then CStr ''Luxury'' else c)
                     (map (astype_str_cell py) (cells s)))\<rparr>"
    by (simp add: standardize_vehicle_class_def Some Let_def getitem_setitem_same
          loc_setitem_str_contains astype_str_def)
  then show ?thesis
    by (simp only: vehicle_class_series) (simp add: update_column_def Some)
qed












section \<open>What the missing-value handler does to each column\<close>



lemma column_names_fill_categorical: "column_names (fill_categorical df col) = column_names df"
  by (simp add: fill_categorical_def column_names_setitem_present split: option.splits)

lemma column_names_fill_numerical: "column_names (fill_numerical py df col) = column_names df"
  by (simp add: fill_numerical_def column_names_setitem_present split: option.splits)

lemma getitem_fill_categorical:
  "getitem (fill_categorical df col) m =
     (if m = col then map_option (fillna (CStr ''Unknown'')) (getitem df m) else getitem df m)"
  by (simp add: fill_categorical_def getitem_setitem split: option.splits)

lemma getitem_fill_numerical:
  "getitem (fill_numerical py df col) m =
     (if m = col then map_option (\<lambda>s. if is_numeric_dtype s then fillna (median py s) s else s) (getitem df m)
      else getitem df m)"
  by (simp add: fill_numerical_def getitem_setitem split: option.splits)



lemma column_names_foldl_fill_categorical:
  "column_names (foldl fill_categorical df cols) = column_names df"
  by (induction cols arbitrary: df) (simp_all add: column_names_fill_categorical)

lemma column_names_foldl_fill_numerical:
  "column_names (foldl (fill_numerical py) df cols) = column_names df"
  by (induction cols arbitrary: df) (simp_all add: column_names_fill_numerical)

lemma getitem_foldl_fill_categorical:
  "distinct cols \<Longrightarrow> getitem (foldl fill_categorical df cols) m =
     (if m \<in> set cols then map_option (fillna (CStr ''Unknown'')) (getitem df m) else getitem df m)"
  by (induction cols arbitrary: df) (auto simp add: getitem_fill_categorical)

lemma getitem_foldl_fill_numerical:
  "distinct cols \<Longrightarrow> getitem (foldl (fill_numerical py) df cols) m =
     (if m \<in> set cols then map_option (\<lambda>s. if is_numeric_dtype s then fillna (median py s) s else s) (getitem df m)
      else getitem df m)"
  by (induction cols arbitrary: df) (auto simp add: getitem_fill_numerical)


lemma distinct_categorical_cols: "distinct categorical_cols"
  by (simp add: categorical_cols_def)

lemma distinct_numerical_cols: "distinct numerical_cols"
  by (simp add: numerical_cols_def)

lemma categorical_not_numerical: "m \<in> set categorical_cols \<Longrightarrow> m \<notin> set numerical_cols"
  by (auto simp add: categorical_cols_def numerical_cols_def)

lemma getitem_filled:
  "getitem (foldl (fill_numerical py) (foldl fill_categorical df categorical_cols) numerical_cols) m =
     (if m \<in> set categorical_cols then map_option (fillna (CStr ''Unknown'')) (getitem df m)
      else if m \<in> set numerical_cols
        then map_option (\<lambda>s. if is_numeric_dtype s then fillna (median py s) s else s) (getitem df m)
      else getitem df m)"
  using categorical_not_numerical[of m]
  by (simp add: getitem_foldl_fill_numerical getitem_foldl_fill_categorical
     distinct_categorical_cols distinct_numerical_cols)

lemma getitem_filled_other:
  "m \<notin> set categorical_cols \<Longrightarrow> m \<notin> set numerical_cols \<Longrightarrow>
   getitem (foldl (fill_numerical py) (foldl fill_categorical df categorical_cols) numerical_cols) m = getitem df m"
  by (simp only: getitem_filled if_False)

lemma complaints_not_filled:
  "''number_of_open_complaints'' \<notin> set categorical_cols"
  "''number_of_open_complaints'' \<notin> set numerical_cols"
  "''complaints_missing'' \<notin> set categorical_cols"
  "''complaints_missing'' \<notin> set numerical_cols"
  by (simp_all add: categorical_cols_def numerical_cols_def)

lemma getitem_handle_missing_values:
  "getitem (handle_missing_values py df) m =
     (if m = ''complaints_missing'' \<and> getitem df ''number_of_open_complaints'' \<noteq> None
        then map_option isnull_series (getitem df ''number_of_open_complaints'')
      else if m \<in> set categorical_cols then map_option (fillna (CStr ''Unknown'')) (getitem df m)
      else if m \<in> set numerical_cols
        then map_option (\<lambda>s. if is_numeric_dtype s then fillna (median py s) s else s) (getitem df m)
      else getitem df m)"
proof -
  let ?filled = "foldl (fill_numerical py) (foldl fill_categorical df categorical_cols) numerical_cols"
  have noc: "getitem ?filled ''number_of_open_complaints'' = getitem df ''number_of_open_complaints''"
    by (rule getitem_filled_other) (rule complaints_not_filled)+
  show ?thesis
  proof (cases "getitem df ''number_of_open_complaints''")
    case None
    then have "handle_missing_values py df = ?filled"
      by (simp add: handle_missing_values_def Let_def noc)
    then show ?thesis
      using None by (simp only: getitem_filled) simp
  next
    case (Some s)
    then have eq: "handle_missing_values py df = setitem ?filled ''complaints_missing'' (isnull_series s)"
      by (simp add: handle_missing_values_def Let_def noc)
    show ?thesis
    proof (cases "m = ''complaints_missing''")
      case True
      then show ?thesis using Some by (simp add: eq getitem_setitem_same)
    next
      case False
      then have "getitem (handle_missing_values py df) m = getitem ?filled m"
        by (simp add: eq getitem_setitem_other)
      then show ?thesis using False by (simp only: getitem_filled) simp
    qed
  qed
qed

lemma column_names_handle_missing_values:
  "column_names (handle_missing_values py df) =
     (if ''number_of_open_complaints'' \<in> set (column_names df)
         \<and> ''complaints_missing'' \<notin> set (column_names df)
      then column_names df @ [''complaints_missing''] else column_names df)"
proof -
  have noc: "getitem (foldl (fill_numerical py) (foldl fill_categorical df categorical_cols) numerical_cols)
        ''number_of_open_complaints'' = getitem df ''number_of_open_complaints''"
    by (rule getitem_filled_other) (rule complaints_not_filled)+
  show ?thesis
  proof (cases "getitem df ''number_of_open_complaints''")
    case None
    then have "column_names (handle_missing_values py df) = column_names df"
      by (simp add: handle_missing_values_def Let_def noc
          column_names_foldl_fill_numerical column_names_foldl_fill_categorical)
    with None show ?thesis by (simp add: getitem_None_iff)
  next
    case (Some s)
    then have "column_names (handle_missing_values py df) =
        (if ''complaints_missing'' \<in> set (column_names df) then column_names df
         else column_names df @ [''complaints_missing''])"
      by (simp add: handle_missing_values_def Let_def noc column_names_setitem
          column_names_foldl_fill_numerical column_names_foldl_fill_categorical)
    moreover from Some have "''number_of_open_complaints'' \<in> set (column_names df)"
      using getitem_None_iff[of df "''number_of_open_complaints''"] by simp
    ultimately show ?thesis by simp
  qed
qed





section \<open>Stages as column updates\<close>






lemma length_fillna: "length (cells (fillna v s)) = length (cells s)"
  by (simp add: fillna_def)

lemma length_fill_median: "length (cells (fill_median py s)) = length (cells s)"
  by (simp add: fill_median_def length_fillna)













section \<open>The duplicate remover\<close>

lemma cell_key_same_value: "cell_key a = cell_key b \<longleftrightarrow> same_value a b"
  by (cases a; cases b) (simp_all add: cell_key_def same_value_def number_of_def)

lemma same_value_refl: "same_value a a"
  using cell_key_same_value[of a a] by simp

lemma row_keys_equal:
  "map cell_key r = map cell_key r' \<longleftrightarrow> list_all2 same_value r r'"
proof (induction r arbitrary: r')
  case Nil
  then show ?case by auto
next
  case (Cons a r)
  then show ?case
    by (cases r') (auto simp add: cell_key_same_value)
qed

lemma length_duplicated_from: "length (duplicated_from seen rs) = length rs"
  by (induction rs arbitrary: seen) simp_all

lemma duplicated_from_nth:
  "i < length rs \<Longrightarrow>
   duplicated_from seen rs ! i \<longleftrightarrow> rs ! i \<in> set seen \<or> (\<exists>j < i. rs ! j = rs ! i)"
proof (induction rs arbitrary: seen i)
  case Nil
  then show ?case by simp
next
  case (Cons r rs)
  show ?case
  proof (cases i)
    case 0
    then show ?thesis by simp
  next
    case (Suc k)
    with Cons.prems have k: "k < length rs" by simp
    have "duplicated_from (r # seen) rs ! k \<longleftrightarrow>
        rs ! k \<in> set (r # seen) \<or> (\<exists>j < k. rs ! j = rs ! k)"
      using Cons.IH[OF k] .
    also have "\<dots> \<longleftrightarrow> rs ! k \<in> set seen \<or> (\<exists>j < Suc k. (r # rs) ! j = rs ! k)"
      by (auto simp add: less_Suc_eq_0_disj)
    finally show ?thesis using Suc by simp
  qed
qed

lemma select_Cons: "select (b # bs) (x # xs) = (if b then x # select bs xs else select bs xs)"
  by (simp add: select_def)

lemma select_Nil: "select [] xs = []" "select bs [] = []"
  by (simp_all add: select_def)

lemma select_positions:
  "length bs = length xs \<Longrightarrow> select bs xs = map ((!) xs) (filter ((!) bs) [0..<length xs])"
proof (induction bs xs rule: list_induct2)
  case Nil
  then show ?case by (simp add: select_Nil)
next
  case (Cons b bs x xs)
  have "filter ((!) (b # bs)) [0..<length (x # xs)] =
      (if b then [0] else []) @ map Suc (filter ((!) bs) [0..<length xs])"
    by (simp add: upt_conv_Cons map_Suc_upt[symmetric] filter_map comp_def del: upt_Suc)
  then show ?case
    using Cons.IH by (simp add: select_Cons comp_def)
qed


lemma length_rows: "length (rows df) = len df"
  by (simp add: rows_def)

lemma length_duplicated: "length (duplicated df) = len df"
  by (simp add: duplicated_def length_duplicated_from length_rows)

lemma duplicated_nth:
  "i < len df \<Longrightarrow> duplicated df ! i \<longleftrightarrow> (\<exists>j < i. equal_rows df j i)"
  by (auto simp add: duplicated_def duplicated_from_nth length_rows rows_def equal_rows_def
      row_keys_equal)

lemma kept_positions:
  "filter ((!) (map Not (duplicated df))) [0..<len df] = first_occurrences df"
  unfolding first_occurrences_def
  by (rule filter_cong) (auto simp add: length_duplicated duplicated_nth)

lemma first_occurrences_bound: "i \<in> set (first_occurrences df) \<Longrightarrow> i < len df"
  by (simp add: first_occurrences_def)

lemma drop_duplicates_aligned:
  assumes "aligned df" and "columns df \<noteq> []"
  shows "drop_duplicates df =
     \<lparr>index = map ((!) (index df)) (first_occurrences df),
      columns = map (\<lambda>(n, s). (n, s\<lparr>cells := map ((!) (cells s)) (first_occurrences df)\<rparr>)) (columns df)\<rparr>"
proof (cases "empty df")
  case True
  then have i: "index df = []"
    using assms by (auto simp add: empty_def)
  then have f: "first_occurrences df = []"
    by (simp add: first_occurrences_def len_def)
  have "map (\<lambda>(n, s). (n, s\<lparr>cells := []\<rparr>)) (columns df) = columns df"
    using assms i by (intro map_idI) (auto simp add: aligned_def)
  with True i f show ?thesis
    by (simp add: drop_duplicates_def)
next
  case False
  have sel: "select (map Not (duplicated df)) xs = map ((!) xs) (first_occurrences df)"
    if "length xs = len df" for xs :: "'a list"
    using that select_positions[of "map Not (duplicated df)" xs]
    by (simp add: length_duplicated kept_positions)
  have "select (map Not (duplicated df)) (index df) = map ((!) (index df)) (first_occurrences df)"
    by (rule sel) (simp add: len_def)
  moreover have "map (\<lambda>(n, s). (n, s\<lparr>cells := select (map Not (duplicated df)) (cells s)\<rparr>)) (columns df)
      = map (\<lambda>(n, s). (n, s\<lparr>cells := map ((!) (cells s)) (first_occurrences df)\<rparr>)) (columns df)"
    using assms by (intro map_cong refl) (auto simp add: aligned_def len_def sel)
  ultimately show ?thesis
    using False by (simp add: drop_duplicates_def Let_def)
qed






lemma aligned_drop_duplicates:
  assumes "aligned df"
  shows "aligned (drop_duplicates df)"
proof (cases "columns df = []")
  case True
  then show ?thesis using assms by (simp add: drop_duplicates_def empty_def)
next
  case False
  have c: "columns (drop_duplicates df) =
      map (\<lambda>(n, s). (n, s\<lparr>cells := map ((!) (cells s)) (first_occurrences df)\<rparr>)) (columns df)"
    and i: "index (drop_duplicates df) = map ((!) (index df)) (first_occurrences df)"
    by (simp_all add: drop_duplicates_aligned[OF assms False])
  show ?thesis
    unfolding aligned_def c i by (simp add: case_prod_unfold)
qed

lemma aligned_reset_index: "aligned df \<Longrightarrow> aligned (reset_index df)"
  by (auto simp add: reset_index_def aligned_def len_def)

lemma length_first_occurrences_le: "length (first_occurrences df) \<le> len df"
  using length_filter_le[of _ "[0..<len df]"] by (simp add: first_occurrences_def)





lemma sorted_first_occurrences: "sorted (first_occurrences df) \<and> distinct (first_occurrences df)"
  by (simp add: first_occurrences_def sorted_wrt_filter)


section \<open>Columns and rows through the whole pipeline\<close>







lemma lower_char_not_space: "lower_char c = CHR '' '' \<longleftrightarrow> c = CHR '' ''"
  by (cases "c \<in> set ascii_uppercase")
     (auto simp add: lower_char_def ascii_lowercase_def ascii_uppercase_def)





























section \<open>The vehicle-class standardizer\<close>

lemma word_after_boundary:
  "contains_word ''Sports'' ''Sports Car''" "contains_word ''Sports'' ''My-Sports.car''"
  by (simp add: contains_word_def startswith_def is_word_char_def
      ascii_lowercase_def ascii_uppercase_def digits_def)+

lemma word_inside_word:
  "\<not> contains_word ''Sports'' ''Sportscar''" "\<not> contains_word ''Sports'' ''xSports Car''"
  "\<not> contains_word ''Sports'' ''Sports_car''" "\<not> contains_word ''Sports'' ''sports car''"
  by (simp_all add: contains_word_def startswith_def is_word_char_def
      ascii_lowercase_def ascii_uppercase_def digits_def)

lemma vehicle_class_examples:
  "vehicle_class_cell sample_floats (CStr ''Luxury Car'') = CStr ''Luxury''"
  "vehicle_class_cell sample_floats (CStr ''Sports Car'') = CStr ''Luxury''"
  "vehicle_class_cell sample_floats (CStr ''SUV'') = CStr ''SUV''"
  "vehicle_class_cell sample_floats (CStr ''luxury car'') = CStr ''luxury car''"
  by (simp_all add: vehicle_class_cell_def py_str_def starts_with_one_of_def word_after_boundary
      sample_floats_def)
     (simp_all add: contains_word_def startswith_def)

text \<open>
  Claim C3. The claim expects \<open>standardize_vehicle_class\<close> to map the cell \<open>luxury car\<close> to
  \<open>Luxury\<close>. The code does not: its first pattern is \<open>^[Lu]\<close>, which holds for a string that
  starts with the upper-case \<open>L\<close> or the lower-case \<open>u\<close>, and \<open>luxury car\<close> starts with
  neither and holds no word \<open>Sports\<close>, so the cell stays \<open>luxury car\<close>. (The sibling
  \<open>standardize_education\<close> writes \<open>^[Bb]\<close> for both cases of its letter.)
\<close>

theorem luxury_car_unchanged:
  "getitem (standardize_vehicle_class sample_floats luxury_car_frame) ''vehicle_class'' =
     Some \<lparr>dtype = Dt_object, cells = [CStr ''luxury car'']\<rparr>
   \<and> CStr ''luxury car'' \<noteq> CStr ''Luxury''"
proof -
  have "getitem luxury_car_frame ''vehicle_class'' = Some \<lparr>dtype = Dt_object, cells = [CStr ''luxury car'']\<rparr>"
    by (simp add: luxury_car_frame_def getitem_def)
  then show ?thesis
    by (simp add: standardize_vehicle_class_update getitem_update_column cellwise_def
        vehicle_class_examples)
qed


section \<open>The gender standardizer\<close>

lemma sample_strips:
  "strip ''female'' = ''female''" "strip '' f '' = ''f''" "strip ''F'' = ''F''"
  "strip ''Male'' = ''Male''" "strip ''Other'' = ''Other''"
  "strip (CHR 0x09 # ''male'' @ [CHR 0x0A]) = ''male''"
  "strip ''False'' = ''False''" "strip ''5'' = ''5''"
  by (simp_all add: strip_def lstrip_def rstrip_def whitespace_def)

lemma sample_uppers:
  "upper ''female'' = ''FEMALE''" "upper ''f'' = ''F''" "upper ''F'' = ''F''"
  "upper ''Male'' = ''MALE''" "upper ''Other'' = ''OTHER''" "upper ''male'' = ''MALE''"
  "upper ''False'' = ''FALSE''" "upper ''5'' = ''5''"
  by (simp_all add: upper_def upper_char_def ascii_lowercase_def ascii_uppercase_def)

lemma sample_str_int_5: "str_int 5 = ''5''"
  by (simp add: str_int_def str_nat.simps digits_def)

lemma gender_cell_present:
  "\<not> isnull c \<Longrightarrow> gender_cell py c =
     CStr (if startswith (upper (strip (py_str py c))) ''F'' then ''F''
           else if startswith (upper (strip (py_str py c))) ''M'' then ''M''
           else py_str py c)"
  by (simp add: gender_cell_def gender_rule_def)

text \<open>
  Claim C2, as amended. Take a frame with distinct column names and a cell of its
  \<open>gender\<close> column that is not missing and whose string form is ASCII text.
  \<open>standardize_gender\<close> takes the cell's string form, and trims and upper-cases it for the
  test only: if the trimmed upper-cased string starts with \<open>F\<close> the cell becomes \<open>F\<close>, if
  it starts with \<open>M\<close> the cell becomes \<open>M\<close>, and otherwise the cell becomes the string form
  itself, neither trimmed nor upper-cased (so \<open>Other\<close> stays \<open>Other\<close>). The column keeps
  its length. (What a missing cell becomes depends on the version of pandas and is the
  matter of claim C9.)
\<close>

theorem gender_rule:
  assumes "distinct (column_names df)"
    and "getitem df ''gender'' = Some s"
  shows "\<exists>s'. getitem (standardize_gender py df) ''gender'' = Some s'
      \<and> length (cells s') = length (cells s)
      \<and> (\<forall>i < length (cells s).
            \<not> isnull (cells s ! i) \<and> is_ascii (py_str py (cells s ! i)) \<longrightarrow>
            cells s' ! i =
              CStr (if startswith (upper (strip (py_str py (cells s ! i)))) ''F'' then ''F''
                    else if startswith (upper (strip (py_str py (cells s ! i)))) ''M'' then ''M''
                    else py_str py (cells s ! i)))"
proof (intro exI conjI allI impI)
  show "getitem (standardize_gender py df) ''gender'' = Some (cellwise Dt_object (gender_cell py) s)"
    using assms(2) by (simp add: standardize_gender_update getitem_update_column)
  show "length (cells (cellwise Dt_object (gender_cell py) s)) = length (cells s)"
    by (simp add: cellwise_def)
  fix i
  assume "i < length (cells s)"
    and "\<not> isnull (cells s ! i) \<and> is_ascii (py_str py (cells s ! i))"
  then show "cells (cellwise Dt_object (gender_cell py) s) ! i =
              CStr (if startswith (upper (strip (py_str py (cells s ! i)))) ''F'' then ''F''
                    else if startswith (upper (strip (py_str py (cells s ! i)))) ''M'' then ''M''
                    else py_str py (cells s ! i))"
    by (simp add: cellwise_def gender_cell_present)
qed

theorem gender_rule_witness:
  "distinct (column_names gender_frame)
   \<and> getitem gender_frame ''gender'' =
       Some \<lparr>dtype = Dt_object,
             cells = [CStr ''female'', CStr '' f '', CStr ''F'', CStr ''Male'', CStr ''Other'',
                      CStr (CHR 0x09 # ''male'' @ [CHR 0x0A]), CBool False, CInt 5]\<rparr>
   \<and> (\<exists>s'. getitem (standardize_gender sample_floats gender_frame) ''gender'' = Some s'
         \<and> length (cells s') = 8
         \<and> cells s' ! 0 = CStr ''F'' \<and> cells s' ! 1 = CStr ''F'' \<and> cells s' ! 2 = CStr ''F''
         \<and> cells s' ! 3 = CStr ''M'' \<and> cells s' ! 4 = CStr ''Other'' \<and> cells s' ! 5 = CStr ''M''
         \<and> cells s' ! 6 = CStr ''F'' \<and> cells s' ! 7 = CStr ''5'')"
proof -
  let ?s = "\<lparr>dtype = Dt_object,
             cells = [CStr ''female'', CStr '' f '', CStr ''F'', CStr ''Male'', CStr ''Other'',
                      CStr (CHR 0x09 # ''male'' @ [CHR 0x0A]), CBool False, CInt 5]\<rparr>"
  have d: "distinct (column_names gender_frame)"
    by (simp add: gender_frame_def column_names_def)
  have g: "getitem gender_frame ''gender'' = Some ?s"
    by (simp add: gender_frame_def getitem_def)
  from gender_rule[OF d g, of sample_floats] obtain s' where
    s': "getitem (standardize_gender sample_floats gender_frame) ''gender'' = Some s'"
    and l: "length (cells s') = length (cells ?s)"
    and c: "\<And>i. i < length (cells ?s) \<Longrightarrow>
            \<not> isnull (cells ?s ! i) \<and> is_ascii (py_str sample_floats (cells ?s ! i)) \<Longrightarrow>
            cells s' ! i =
              CStr (if startswith (upper (strip (py_str sample_floats (cells ?s ! i)))) ''F'' then ''F''
                    else if startswith (upper (strip (py_str sample_floats (cells ?s ! i)))) ''M'' then ''M''
                    else py_str sample_floats (cells ?s ! i))"
    by blast
  have "cells s' ! 0 = CStr ''F''"
    using c[of 0] by (simp add: py_str_def is_ascii_def sample_strips sample_uppers startswith_def)
  moreover have "cells s' ! 1 = CStr ''F''"
    using c[of 1] by (simp add: py_str_def is_ascii_def sample_strips sample_uppers startswith_def)
  moreover have "cells s' ! 2 = CStr ''F''"
    using c[of 2] by (simp add: py_str_def is_ascii_def sample_strips sample_uppers startswith_def)
  moreover have "cells s' ! 3 = CStr ''M''"
    using c[of 3] by (simp add: py_str_def is_ascii_def sample_strips sample_uppers startswith_def)
  moreover have "cells s' ! 4 = CStr ''Other''"
    using c[of 4] by (simp add: py_str_def is_ascii_def sample_strips sample_uppers startswith_def)
  moreover have "cells s' ! 5 = CStr ''M''"
    using c[of 5] sample_strips(6)
    by (simp add: py_str_def is_ascii_def sample_uppers startswith_def)
  moreover have "cells s' ! 6 = CStr ''F''"
    using c[of 6] by (simp add: py_str_def is_ascii_def sample_strips sample_uppers startswith_def)
  moreover have "cells s' ! 7 = CStr ''5''"
    using c[of 7]
    by (simp add: py_str_def is_ascii_def sample_strips sample_uppers startswith_def sample_str_int_5)
  moreover have "length (cells s') = 8"
    using l by simp
  ultimately show ?thesis
    using d g s' by blast
qed

text \<open>
  The claim as it was stated fails: the cell \<open>Other\<close> comes out as \<open>Other\<close>, not as its
  trimmed upper-cased form \<open>OTHER\<close>.
\<close>

theorem other_gender_not_upper_cased:
  "getitem (standardize_gender sample_floats other_gender_frame) ''gender'' =
     Some \<lparr>dtype = Dt_object, cells = [CStr ''Other'']\<rparr>
   \<and> upper (strip ''Other'') = ''OTHER'' \<and> CStr ''Other'' \<noteq> CStr ''OTHER''"
proof -
  have "getitem other_gender_frame ''gender'' = Some \<lparr>dtype = Dt_object, cells = [CStr ''Other'']\<rparr>"
    by (simp add: other_gender_frame_def getitem_def)
  then show ?thesis
    by (simp add: standardize_gender_update getitem_update_column cellwise_def gender_cell_present
        py_str_def sample_strips sample_uppers startswith_def)
qed


section \<open>The missing-value handler\<close>



lemma sample_fillable:
  "fillable complaints_frame" "fillable gender_frame" "fillable float_claims_frame"
  by (simp_all add: fillable_def well_typed_def complaints_frame_def gender_frame_def
      float_claims_frame_def complaints_not_filled)

text \<open>
  Claim C6. Take a frame with distinct column names on which \<open>handle_missing_values\<close>
  returns (\<open>fillable\<close>). If it has a column \<open>number_of_open_complaints\<close>, the stage sets the
  boolean column \<open>complaints_missing\<close>, true at a row exactly when that row's complaints
  cell is missing, as a new last column unless a column of that name exists already,
  and it leaves the complaints column itself as it was, missing cells included. Without
  the complaints column no column is added and \<open>complaints_missing\<close> is not written. In
  the pipeline the stage runs on the output of the numeric cleaner.
\<close>

theorem complaints_missing_column:
  assumes "distinct (column_names df)" and "fillable df"
  shows "(\<forall>s. getitem df ''number_of_open_complaints'' = Some s \<longrightarrow>
            getitem (handle_missing_values py df) ''complaints_missing'' =
              Some \<lparr>dtype = Dt_bool, cells = map (\<lambda>c. CBool (isnull c)) (cells s)\<rparr>
          \<and> getitem (handle_missing_values py df) ''number_of_open_complaints'' = Some s
          \<and> column_names (handle_missing_values py df) =
              (if ''complaints_missing'' \<in> set (column_names df) then column_names df
               else column_names df @ [''complaints_missing'']))
       \<and> (getitem df ''number_of_open_complaints'' = None \<longrightarrow>
            column_names (handle_missing_values py df) = column_names df
          \<and> getitem (handle_missing_values py df) ''complaints_missing'' = getitem df ''complaints_missing'')"
  by (auto simp add: getitem_handle_missing_values column_names_handle_missing_values
      complaints_not_filled isnull_series_def getitem_None_iff)

theorem complaints_missing_column_witness:
  "distinct (column_names complaints_frame) \<and> fillable complaints_frame
   \<and> getitem complaints_frame ''number_of_open_complaints'' = Some \<lparr>dtype = Dt_Int64, cells = [CInt 3, NA]\<rparr>
   \<and> getitem (handle_missing_values sample_floats complaints_frame) ''complaints_missing'' =
       Some \<lparr>dtype = Dt_bool, cells = [CBool False, CBool True]\<rparr>
   \<and> getitem (handle_missing_values sample_floats complaints_frame) ''number_of_open_complaints'' =
       Some \<lparr>dtype = Dt_Int64, cells = [CInt 3, NA]\<rparr>
   \<and> column_names (handle_missing_values sample_floats complaints_frame) =
       [''number_of_open_complaints'', ''complaints_missing'']
   \<and> distinct (column_names gender_frame) \<and> fillable gender_frame
   \<and> getitem gender_frame ''number_of_open_complaints'' = None
   \<and> column_names (handle_missing_values sample_floats gender_frame) = [''gender'']
   \<and> getitem (handle_missing_values sample_floats gender_frame) ''complaints_missing'' = None"
proof -
  have a: "getitem complaints_frame ''number_of_open_complaints'' = Some \<lparr>dtype = Dt_Int64, cells = [CInt 3, NA]\<rparr>"
    "column_names complaints_frame = [''number_of_open_complaints'']"
    by (simp_all add: complaints_frame_def getitem_def column_names_def)
  have b: "getitem gender_frame ''number_of_open_complaints'' = None"
    "getitem gender_frame ''complaints_missing'' = None" "column_names gender_frame = [''gender'']"
    by (simp_all add: gender_frame_def getitem_def column_names_def)
  have d: "distinct (column_names complaints_frame)" "distinct (column_names gender_frame)"
    by (simp_all add: a b)
  show ?thesis
    using complaints_missing_column[OF d(1) sample_fillable(1), of sample_floats]
      complaints_missing_column[OF d(2) sample_fillable(2), of sample_floats] a b d sample_fillable
    by simp
qed





section \<open>The numeric cleaner: open complaints\<close>





























section \<open>Duplicate rows\<close>







section \<open>A sample input of the pipeline\<close>
















section \<open>Column names\<close>





section \<open>Rows through the pipeline\<close>





section \<open>Missing cells of the standardized columns\<close>






















end
